theory Spec2Isabelle
  imports Main "HOL-Library.Sublist"
begin

section \<open>JavaScript strings and values\<close>

text \<open>
  The generators are JavaScript. A JavaScript string is modelled as a \<^typ>\<open>string\<close>, one
  \<^typ>\<open>char\<close> per code unit, so the model covers the strings whose code units lie in
  U+0000 .. U+00FF. Numbers only ever arise from \<open>parseInt\<close> and are modelled as exact
  integers (or \<open>NaN\<close>); JavaScript agrees with that below \<open>2^53\<close>.
\<close>

subsection \<open>Character classes\<close>

definition isUpper :: "char \<Rightarrow> bool" where
  \<comment> \<open>the regex class \<open>[A-Z]\<close>\<close>
  "isUpper c = (let n = (of_char c :: nat) in 65 \<le> n \<and> n \<le> 90)"

definition isLower :: "char \<Rightarrow> bool" where
  \<comment> \<open>the regex class \<open>[a-z]\<close>\<close>
  "isLower c = (let n = (of_char c :: nat) in 97 \<le> n \<and> n \<le> 122)"

definition isDigit :: "char \<Rightarrow> bool" where
  \<comment> \<open>the regex class \<open>[0-9]\<close>\<close>
  "isDigit c = (let n = (of_char c :: nat) in 48 \<le> n \<and> n \<le> 57)"

definition isWordChar :: "char \<Rightarrow> bool" where
  \<comment> \<open>the regex class \<open>\w\<close>, that is \<open>[A-Za-z0-9_]\<close>\<close>
  "isWordChar c = (isUpper c \<or> isLower c \<or> isDigit c \<or> c = CHR ''_'')"

definition isSpace :: "char \<Rightarrow> bool" where
  \<comment> \<open>the regex class \<open>\s\<close> and the characters \<open>trim\<close> strips: tab, line feed, vertical tab,
      form feed, carriage return, space and no-break space (U+00A0)\<close>
  "isSpace c = (let n = (of_char c :: nat) in (9 \<le> n \<and> n \<le> 13) \<or> n = 32 \<or> n = 160)"

definition toUpperChar :: "char \<Rightarrow> char" where
  \<comment> \<open>\<open>toUpperCase\<close> on one character; the source applies it to characters matched by
      \<open>\w\<close> only, where it maps \<open>a-z\<close> to \<open>A-Z\<close> and changes nothing else\<close>
  "toUpperChar c = (if isLower c then char_of ((of_char c :: nat) - 32) else c)"

definition toLowerChar :: "char \<Rightarrow> char" where
  \<comment> \<open>\<open>toLowerCase\<close> on one character: \<open>A-Z\<close> and the capital letters U+00C0 .. U+00DE
      (but not the multiplication sign U+00D7) move up by 32\<close>
  "toLowerChar c =
     (let n = (of_char c :: nat) in
      if (65 \<le> n \<and> n \<le> 90) \<or> (192 \<le> n \<and> n \<le> 222 \<and> n \<noteq> 215)
      then char_of (n + 32) else c)"

definition toLowerCase :: "string \<Rightarrow> string" where
  "toLowerCase s = map toLowerChar s"

subsection \<open>\<open>split\<close>, \<open>trim\<close>, \<open>join\<close>, \<open>includes\<close>\<close>

fun split :: "char \<Rightarrow> string \<Rightarrow> string list" where
  \<comment> \<open>\<open>s.split(sep)\<close> for a separator of one character; the empty string gives \<open>[""]\<close>\<close>
  "split sep [] = [[]]"
| "split sep (c # cs) =
     (if c = sep then [] # split sep cs
      else (case split sep cs of
              [] \<Rightarrow> [[c]]
            | w # ws \<Rightarrow> (c # w) # ws))"

definition trim :: "string \<Rightarrow> string" where
  "trim s = rev (dropWhile isSpace (rev (dropWhile isSpace s)))"

fun join :: "string \<Rightarrow> string list \<Rightarrow> string" where
  \<comment> \<open>\<open>xs.join(sep)\<close>\<close>
  "join sep [] = []"
| "join sep [x] = x"
| "join sep (x # y # ys) = x @ sep @ join sep (y # ys)"

fun includes_str :: "string \<Rightarrow> string \<Rightarrow> bool" where
  \<comment> \<open>\<open>s.includes(t)\<close>: \<open>t\<close> occurs in \<open>s\<close> as a contiguous run\<close>
  "includes_str [] t = (t = [])"
| "includes_str (c # cs) t = (prefix t (c # cs) \<or> includes_str cs t)"

section \<open>Name Transformer (utils/helpers)\<close>

fun replaceSeparatorWord :: "string \<Rightarrow> string" where
  \<comment> \<open>\<open>.replace(/[-_](\w)/g, (_, c) => c.toUpperCase())\<close>\<close>
  "replaceSeparatorWord (a # b # cs) =
     (if (a = CHR ''-'' \<or> a = CHR ''_'') \<and> isWordChar b
      then toUpperChar b # replaceSeparatorWord cs
      else a # replaceSeparatorWord (b # cs))"
| "replaceSeparatorWord cs = cs"

definition upperFirstWord :: "string \<Rightarrow> string" where
  \<comment> \<open>\<open>.replace(/^\w/, (c) => c.toUpperCase())\<close>\<close>
  "upperFirstWord s =
     (case s of [] \<Rightarrow> [] | c # cs \<Rightarrow> if isWordChar c then toUpperChar c # cs else c # cs)"

definition toPascalCase :: "string \<Rightarrow> string" where
  "toPascalCase str = upperFirstWord (replaceSeparatorWord str)"

definition toCamelCase :: "string \<Rightarrow> string" where
  \<comment> \<open>\<open>pascal.charAt(0).toLowerCase() + pascal.slice(1)\<close>\<close>
  "toCamelCase str =
     (let pascal = toPascalCase str in
      case pascal of [] \<Rightarrow> [] | c # cs \<Rightarrow> toLowerChar c # cs)"

fun splitLowerUpper :: "char \<Rightarrow> string \<Rightarrow> string" where
  \<comment> \<open>\<open>.replace(/([a-z])([A-Z])/g, "$1" + sep + "$2")\<close>\<close>
  "splitLowerUpper sep (a # b # cs) =
     (if isLower a \<and> isUpper b
      then a # sep # b # splitLowerUpper sep cs
      else a # splitLowerUpper sep (b # cs))"
| "splitLowerUpper sep cs = cs"

function replaceRuns :: "(char \<Rightarrow> bool) \<Rightarrow> char \<Rightarrow> string \<Rightarrow> string" where
  \<comment> \<open>\<open>.replace(/[...]+/g, r)\<close>: every maximal run of characters of the class becomes \<open>r\<close>\<close>
  "replaceRuns p r [] = []"
| "replaceRuns p r (c # cs) =
     (if p c then r # replaceRuns p r (dropWhile p cs) else c # replaceRuns p r cs)"
  by pat_completeness auto
termination
  by (relation "measure (\<lambda>(p, r, s). length s)") (auto simp: length_dropWhile_le less_Suc_eq_le)

definition toKebabCase :: "string \<Rightarrow> string" where
  "toKebabCase str =
     toLowerCase
       (replaceRuns (\<lambda>c. isSpace c \<or> c = CHR ''_'') CHR ''-'' (splitLowerUpper CHR ''-'' str))"

definition toSnakeCase :: "string \<Rightarrow> string" where
  "toSnakeCase str =
     toLowerCase
       (replaceRuns (\<lambda>c. isSpace c \<or> c = CHR ''-'') CHR ''_'' (splitLowerUpper CHR ''_'' str))"

definition tableName :: "string \<Rightarrow> string" where
  \<comment> \<open>\<open>createMigration\<close> of the CRUD generator: \<open>toSnakeCase(modelName) + "s"\<close>\<close>
  "tableName modelName = toSnakeCase modelName @ ''s''"

section \<open>Field descriptors\<close>

datatype jsnum = NaN | Num int

definition digitValue :: "char \<Rightarrow> nat option" where
  \<comment> \<open>the value of a digit in radix up to 16\<close>
  "digitValue c =
     (let n = (of_char c :: nat) in
      if 48 \<le> n \<and> n \<le> 57 then Some (n - 48)
      else if 97 \<le> n \<and> n \<le> 102 then Some (n - 87)
      else if 65 \<le> n \<and> n \<le> 70 then Some (n - 55)
      else None)"

definition isRadixDigit :: "nat \<Rightarrow> char \<Rightarrow> bool" where
  "isRadixDigit radix c = (case digitValue c of None \<Rightarrow> False | Some d \<Rightarrow> d < radix)"

definition digitsValue :: "nat \<Rightarrow> string \<Rightarrow> int" where
  "digitsValue radix ds =
     foldl (\<lambda>acc c. acc * int radix + (case digitValue c of None \<Rightarrow> 0 | Some d \<Rightarrow> int d)) 0 ds"

definition parseInt :: "string \<Rightarrow> jsnum" where
  \<comment> \<open>\<open>parseInt(s)\<close> with no radix argument: leading white space is skipped, then an
      optional sign, an optional \<open>0x\<close>/\<open>0X\<close> (radix 16, otherwise 10) and the longest run
      of digits; no digit gives \<open>NaN\<close>\<close>
  "parseInt s =
     (let s1 = dropWhile isSpace s;
          negative = (case s1 of [] \<Rightarrow> False | c # _ \<Rightarrow> c = CHR ''-'');
          s2 = (case s1 of [] \<Rightarrow> [] | c # cs \<Rightarrow> if c = CHR ''+'' \<or> c = CHR ''-'' then cs else s1);
          hex = (prefix ''0x'' s2 \<or> prefix ''0X'' s2);
          radix = (if hex then 16 else 10);
          s3 = (if hex then drop 2 s2 else s2);
          ds = takeWhile (isRadixDigit radix) s3
      in if ds = [] then NaN
         else Num (if negative then - digitsValue radix ds else digitsValue radix ds))"

function showNat :: "nat \<Rightarrow> string" where
  "showNat n =
     (if n < 10 then [char_of (48 + n)] else showNat (n div 10) @ [char_of (48 + n mod 10)])"
  by pat_completeness auto
termination
  by (relation "measure id") auto

declare showNat.simps [simp del]

definition numToString :: "jsnum \<Rightarrow> string" where
  \<comment> \<open>a number inside a template literal\<close>
  "numToString v =
     (case v of
        NaN \<Rightarrow> ''NaN''
      | Num i \<Rightarrow> if i < 0 then CHR ''-'' # showNat (nat (- i)) else showNat (nat i))"

definition truthyNum :: "jsnum option \<Rightarrow> bool" where
  \<comment> \<open>a number property in a condition: \<open>undefined\<close>, \<open>NaN\<close> and \<open>0\<close> are falsy\<close>
  "truthyNum v = (case v of None \<Rightarrow> False | Some NaN \<Rightarrow> False | Some (Num i) \<Rightarrow> i \<noteq> 0)"

definition truthyStr :: "string option \<Rightarrow> bool" where
  \<comment> \<open>a string property in a condition: \<open>undefined\<close> and \<open>""\<close> are falsy\<close>
  "truthyStr v = (case v of None \<Rightarrow> False | Some s \<Rightarrow> s \<noteq> [])"

definition strOf :: "string option \<Rightarrow> string" where
  \<comment> \<open>a string property inside a template literal\<close>
  "strOf v = (case v of None \<Rightarrow> ''undefined'' | Some s \<Rightarrow> s)"

definition at :: "'a list \<Rightarrow> nat \<Rightarrow> 'a option" where
  \<comment> \<open>\<open>xs[i]\<close>: \<open>undefined\<close> past the end\<close>
  "at xs i = (if i < length xs then Some (xs ! i) else None)"

text \<open>
  A field descriptor is a plain object; a property that was never assigned reads
  \<open>undefined\<close>, which is \<open>None\<close> here (\<open>False\<close> for the flags, which are only ever
  assigned \<open>true\<close>). The flags \<open>default\<close> and \<open>comment\<close> are the ones the interactive builder
  sets when those modifiers are picked; their texts are \<open>defaultValue\<close> and \<open>commentText\<close>.
\<close>

record field =
  name :: "string option"
  type :: string
  special :: "string option"
  length_opt :: "jsnum option"
  precision :: "jsnum option"
  scale :: "jsnum option"
  values_opt :: "string list option"
  unsigned :: bool
  nullable :: bool
  unique :: bool
  index :: bool
  default :: bool
  comment :: bool
  defaultValue :: "string option"
  commentText :: "string option"
  constrained :: "string option"
  cascadeOnDelete :: bool

definition field_of :: "string option \<Rightarrow> string \<Rightarrow> field" where
  \<comment> \<open>the object literal \<open>{ name: n, type: t }\<close>\<close>
  "field_of n t =
     \<lparr> name = n, type = t, special = None, length_opt = None, precision = None, scale = None,
       values_opt = None, unsigned = False, nullable = False, unique = False, index = False,
       default = False, comment = False, defaultValue = None, commentText = None, constrained = None, cascadeOnDelete = False \<rparr>"

section \<open>FieldSpec parsers\<close>

datatype error = TypeError

fun traverse :: "('a \<Rightarrow> error + 'b) \<Rightarrow> 'a list \<Rightarrow> error + 'b list" where
  \<comment> \<open>\<open>xs.map(f)\<close> where \<open>f\<close> may throw: the first exception ends the loop\<close>
  "traverse f [] = Inr []"
| "traverse f (x # xs) =
     (case f x of
        Inl e \<Rightarrow> Inl e
      | Inr y \<Rightarrow> (case traverse f xs of Inl e \<Rightarrow> Inl e | Inr ys \<Rightarrow> Inr (y # ys)))"

definition parseField :: "string \<Rightarrow> error + field" where
  \<comment> \<open>the arrow function of \<open>parseFields\<close>:
      \<open>const [name, type = "string"] = field.trim().split(":")\<close>, then
      \<open>{ name: name.trim(), type: type.trim() }\<close>; \<open>name.trim()\<close> throws on \<open>undefined\<close>\<close>
  "parseField fld =
     (let parts = split CHR '':'' (trim fld);
          ty = (case at parts 1 of None \<Rightarrow> ''string'' | Some t \<Rightarrow> t)
      in case at parts 0 of
           None \<Rightarrow> Inl TypeError
         | Some nm \<Rightarrow> Inr (field_of (Some (trim nm)) (trim ty)))"

definition parseFields :: "string \<Rightarrow> error + field list" where
  \<comment> \<open>\<open>parseFields\<close> of the CRUD generator\<close>
  "parseFields fieldsString = traverse parseField (split CHR '','' fieldsString)"

definition parseFieldManual :: "string \<Rightarrow> field" where
  \<comment> \<open>the loop body of \<open>parseFieldsManual\<close>\<close>
  "parseFieldManual fieldStr =
     (let parts = split CHR '':'' fieldStr;
          fld = field_of (at parts 0)
                  (case at parts 1 of None \<Rightarrow> ''string'' | Some t \<Rightarrow> if t = [] then ''string'' else t)
      in if truthyStr (at parts 2) then
           if at parts 2 = Some ''unique'' then fld\<lparr>unique := True\<rparr>
           else if at parts 2 = Some ''nullable'' then fld\<lparr>nullable := True\<rparr>
           else if at parts 1 = Some ''decimal'' then
             fld\<lparr>precision := Some (parseInt (strOf (at parts 2))),
                 scale := Some (if truthyStr (at parts 3) then parseInt (strOf (at parts 3))
                                else Num 2)\<rparr>
           else fld
         else fld)"

definition parseFieldsManual :: "string \<Rightarrow> field list" where
  \<comment> \<open>\<open>parseFieldsManual\<close> of the migration generator\<close>
  "parseFieldsManual input = map parseFieldManual (map trim (split CHR '','' input))"

section \<open>Type taxonomy lookups (CRUD generator)\<close>

text \<open>
  The lookup tables are object literals, read with \<open>table[type] || fallback\<close>. Reading a
  property of an object literal consults its own properties first and then those of
  \<open>Object.prototype\<close>, whose values are built-in functions (and, for \<open>__proto__\<close>, the
  prototype object itself).
\<close>

datatype jsval = Str string | NativeFunction string | ObjectPrototype

definition objectPrototype :: "(string \<times> jsval) list" where
  "objectPrototype =
     [(''constructor'', NativeFunction ''Object''),
      (''__defineGetter__'', NativeFunction ''__defineGetter__''),
      (''__defineSetter__'', NativeFunction ''__defineSetter__''),
      (''hasOwnProperty'', NativeFunction ''hasOwnProperty''),
      (''__lookupGetter__'', NativeFunction ''__lookupGetter__''),
      (''__lookupSetter__'', NativeFunction ''__lookupSetter__''),
      (''isPrototypeOf'', NativeFunction ''isPrototypeOf''),
      (''propertyIsEnumerable'', NativeFunction ''propertyIsEnumerable''),
      (''toString'', NativeFunction ''toString''),
      (''valueOf'', NativeFunction ''valueOf''),
      (''__proto__'', ObjectPrototype),
      (''toLocaleString'', NativeFunction ''toLocaleString'')]"

definition getProperty :: "(string \<times> string) list \<Rightarrow> string \<Rightarrow> jsval option" where
  \<comment> \<open>\<open>table[key]\<close> for an object literal with string values; \<open>None\<close> is \<open>undefined\<close>\<close>
  "getProperty own key =
     (case map_of own key of
        Some v \<Rightarrow> Some (Str v)
      | None \<Rightarrow> map_of objectPrototype key)"

definition orElse :: "jsval option \<Rightarrow> string \<Rightarrow> jsval" where
  \<comment> \<open>\<open>v || "fallback"\<close>: \<open>undefined\<close> and \<open>""\<close> are falsy, functions and objects are truthy\<close>
  "orElse v fallback =
     (case v of
        None \<Rightarrow> Str fallback
      | Some (Str s) \<Rightarrow> if s = [] then Str fallback else Str s
      | Some w \<Rightarrow> w)"

definition toString :: "jsval \<Rightarrow> string" where
  \<comment> \<open>a value inside a template literal or added to a string\<close>
  "toString v =
     (case v of
        Str s \<Rightarrow> s
      | NativeFunction f \<Rightarrow> ''function '' @ f @ ''() { [native code] }''
      | ObjectPrototype \<Rightarrow> ''[object Object]'')"

definition migrationTypeMap :: "(string \<times> string) list" where
  "migrationTypeMap =
     [(''string'', ''string''), (''text'', ''text''), (''integer'', ''integer''),
      (''bigint'', ''bigInteger''), (''decimal'', ''decimal''), (''float'', ''float''),
      (''double'', ''double''), (''boolean'', ''boolean''), (''date'', ''date''),
      (''datetime'', ''dateTime''), (''timestamp'', ''timestamp''), (''json'', ''json'')]"

definition getMigrationType :: "string \<Rightarrow> jsval" where
  "getMigrationType ty = orElse (getProperty migrationTypeMap ty) ''string''"

definition typeRules :: "(string \<times> string) list" where
  "typeRules =
     [(''string'', ''required|string|max:255''), (''text'', ''required|string''),
      (''integer'', ''required|integer''), (''bigint'', ''required|integer''),
      (''decimal'', ''required|numeric''), (''float'', ''required|numeric''),
      (''double'', ''required|numeric''), (''boolean'', ''required|boolean''),
      (''date'', ''required|date''), (''datetime'', ''required|date''),
      (''timestamp'', ''required|date''), (''json'', ''required|array'')]"

definition getValidationRules :: "string \<Rightarrow> bool \<Rightarrow> string" where
  \<comment> \<open>\<open>getValidationRules(type, isUpdate = false)\<close>\<close>
  "getValidationRules ty isUpdate =
     (let pre = (if isUpdate then ''sometimes|'' else [])
      in pre @ toString (orElse (getProperty typeRules ty) ''required|string|max:255''))"

definition inputTypeMap :: "(string \<times> string) list" where
  "inputTypeMap =
     [(''string'', ''text''), (''text'', ''textarea''), (''integer'', ''number''),
      (''bigint'', ''number''), (''decimal'', ''number''), (''float'', ''number''),
      (''double'', ''number''), (''boolean'', ''checkbox''), (''date'', ''date''),
      (''datetime'', ''datetime-local''), (''timestamp'', ''datetime-local'')]"

definition getInputType :: "string \<Rightarrow> jsval" where
  "getInputType fieldType = orElse (getProperty inputTypeMap fieldType) ''text''"

definition quoted :: "string \<Rightarrow> string" where
  \<comment> \<open>\<open>'${s}'\<close>: the text between two apostrophes\<close>
  "quoted s = CHR 0x27 # s @ [CHR 0x27]"

definition ruleLine :: "field \<Rightarrow> bool \<Rightarrow> string" where
  \<comment> \<open>one entry of the rules array in \<open>createFormRequests\<close>:
      twelve spaces, \<open>'${field.name}' => '${rules}',\<close>\<close>
  "ruleLine f isUpdate =
     ''            '' @ quoted (strOf (name f)) @ '' => '' @
       quoted (getValidationRules (type f) isUpdate) @ '',''"

definition validationRules :: "field list \<Rightarrow> string" where
  \<comment> \<open>the rules of the Store request in \<open>createFormRequests\<close>\<close>
  "validationRules fs = join ''\<newline>'' (map (\<lambda>f. ruleLine f False) fs)"

definition updateValidationRules :: "field list \<Rightarrow> string" where
  \<comment> \<open>the rules of the Update request in \<open>createFormRequests\<close>\<close>
  "updateValidationRules fs = join ''\<newline>'' (map (\<lambda>f. ruleLine f True) fs)"

section \<open>Schema Emitter (migration generator)\<close>

definition appendIf :: "bool \<Rightarrow> string \<Rightarrow> string \<Rightarrow> string" where
  \<comment> \<open>the statement \<open>if (c) definition += t;\<close>\<close>
  "appendIf c t d = (if c then d @ t else d)"

definition numOf :: "jsnum option \<Rightarrow> string" where
  \<comment> \<open>a number property inside a template literal\<close>
  "numOf v = (case v of None \<Rightarrow> ''undefined'' | Some n \<Rightarrow> numToString n)"

definition columnCall :: "field \<Rightarrow> string" where
  \<comment> \<open>\<open>generateFieldDefinition\<close> up to and including the closing parenthesis of the
      column constructor\<close>
  "columnCall f =
     (let d0 = ''$table->'' @ type f @ ''('' @ quoted (strOf (name f));
          d1 = appendIf (truthyNum (length_opt f)) ('', '' @ numOf (length_opt f)) d0;
          d2 = appendIf (truthyNum (precision f) \<and> truthyNum (scale f))
                 ('', '' @ numOf (precision f) @ '', '' @ numOf (scale f)) d1;
          d3 = appendIf (values_opt f \<noteq> None)
                 ('', ['' @ join '', '' (map quoted (case values_opt f of None \<Rightarrow> [] | Some vs \<Rightarrow> vs)) @
                  '']'') d2
      in d3 @ '')'')"

definition generateFieldDefinition :: "field \<Rightarrow> string" where
  "generateFieldDefinition f =
     (if type f = ''special'' then ''$table->'' @ strOf (special f) @ ''();''
      else
        let d0 = columnCall f;
            d1 = appendIf (unsigned f) ''->unsigned()'' d0;
            d2 = appendIf (nullable f) ''->nullable()'' d1;
            d3 = appendIf (unique f) ''->unique()'' d2;
            d4 = appendIf (index f) ''->index()'' d3;
            d5 = appendIf (defaultValue f \<noteq> None)
                   (''->default('' @
                      (if defaultValue f = Some ''null'' then ''null''
                       else quoted (strOf (defaultValue f))) @ '')'') d4;
            d6 = appendIf (truthyStr (commentText f))
                   (''->comment('' @ quoted (strOf (commentText f)) @ '')'') d5;
            d7 = appendIf (truthyStr (constrained f))
                   (''->constrained('' @ quoted (strOf (constrained f)) @ '')'') d6;
            d8 = appendIf (cascadeOnDelete f) ''->cascadeOnDelete()'' d7
        in d8 @ '';'')"

definition buildEnumField :: "string \<Rightarrow> string option \<Rightarrow> field" where
  \<comment> \<open>\<open>buildSingleField\<close> when the type \<open>enum\<close> is picked, the enum-values prompt is
      answered with \<open>valuesAnswer\<close> and no modifier is selected\<close>
  "buildEnumField fieldName valuesAnswer =
     (let fld = field_of (Some fieldName) ''enum''
      in if truthyStr valuesAnswer
         then fld\<lparr>values_opt := Some (map trim (split CHR '','' (strOf valuesAnswer)))\<rparr>
         else fld)"

definition setFlag :: "string \<Rightarrow> field \<Rightarrow> field" where
  \<comment> \<open>\<open>field[mod.value] = true\<close> for the six values the modifier picker offers\<close>
  "setFlag m f =
     (if m = ''nullable'' then f\<lparr>nullable := True\<rparr>
      else if m = ''unique'' then f\<lparr>unique := True\<rparr>
      else if m = ''default'' then f\<lparr>default := True\<rparr>
      else if m = ''unsigned'' then f\<lparr>unsigned := True\<rparr>
      else if m = ''index'' then f\<lparr>index := True\<rparr>
      else if m = ''comment'' then f\<lparr>comment := True\<rparr>
      else f)"

definition applyModifiers ::
    "string list \<Rightarrow> string option \<Rightarrow> string option \<Rightarrow> field \<Rightarrow> field" where
  \<comment> \<open>the block \<open>if (modifiers) { ... }\<close> of \<open>buildSingleField\<close>: every picked modifier
      sets its flag; when \<open>default\<close> is picked the answer to the default-value prompt is kept
      unless the prompt was dismissed; when \<open>comment\<close> is picked the answer to the comment
      prompt is kept unless it is dismissed or empty\<close>
  "applyModifiers mods defaultAnswer commentAnswer fld =
     (let f1 = foldl (\<lambda>f m. setFlag m f) fld mods;
          f2 = (if ''default'' \<in> set mods \<and> defaultAnswer \<noteq> None
                then f1\<lparr>defaultValue := defaultAnswer\<rparr> else f1)
      in if ''comment'' \<in> set mods \<and> truthyStr commentAnswer
         then f2\<lparr>commentText := commentAnswer\<rparr> else f2)"

datatype modifier =
  Unsigned | Nullable | Unique | Index | Default | Comment | Constrained | CascadeOnDelete

definition modifierOrder :: "modifier list" where
  \<comment> \<open>the order the specification fixes for the modifier chain\<close>
  "modifierOrder =
     [Unsigned, Nullable, Unique, Index, Default, Comment, Constrained, CascadeOnDelete]"

fun selected :: "field \<Rightarrow> modifier \<Rightarrow> bool" where
  \<comment> \<open>whether the descriptor asks for the modifier: its flag for the six modifiers of the
      builder, the referenced table for the foreign-key constraint, the cascade flag\<close>
  "selected f Unsigned = unsigned f"
| "selected f Nullable = nullable f"
| "selected f Unique = unique f"
| "selected f Index = index f"
| "selected f Default = default f"
| "selected f Comment = comment f"
| "selected f Constrained = truthyStr (constrained f)"
| "selected f CascadeOnDelete = cascadeOnDelete f"

fun modifierText :: "field \<Rightarrow> modifier \<Rightarrow> string" where
  \<comment> \<open>the text of one link of the chain\<close>
  "modifierText f Unsigned = ''->unsigned()''"
| "modifierText f Nullable = ''->nullable()''"
| "modifierText f Unique = ''->unique()''"
| "modifierText f Index = ''->index()''"
| "modifierText f Default =
     ''->default('' @ (if defaultValue f = Some ''null'' then ''null''
                      else quoted (strOf (defaultValue f))) @ '')''"
| "modifierText f Comment = ''->comment('' @ quoted (strOf (commentText f)) @ '')''"
| "modifierText f Constrained = ''->constrained('' @ quoted (strOf (constrained f)) @ '')''"
| "modifierText f CascadeOnDelete = ''->cascadeOnDelete()''"

definition modifierChain :: "field \<Rightarrow> string list" where
  \<comment> \<open>the chain as the specification describes it: the fixed order is scanned and the
      selected modifiers are kept\<close>
  "modifierChain f = map (modifierText f) (filter (selected f) modifierOrder)"

section \<open>Artifact Coordinator\<close>

text \<open>
  What a command can touch: the files of the project (path to content), the messages shown
  to the user, the external tool commands issued, and the answers the user will give to
  the prompts still to come (\<open>None\<close> is a dismissed prompt). \<open>path.join\<close> is a parameter of
  the functions that build a path.
\<close>

record world =
  files :: "string \<rightharpoonup> string"
  messages :: "string list"
  commands :: "string list"
  answers :: "string option list"

definition showInputBox :: "world \<Rightarrow> string option \<times> world" where
  \<comment> \<open>the next prompt: it takes the user's next answer; with no answer left the prompt
      is dismissed\<close>
  "showInputBox w =
     (case answers w of
        [] \<Rightarrow> (None, w)
      | a # as \<Rightarrow> (a, w\<lparr>answers := as\<rparr>))"

definition routeCode :: "string \<Rightarrow> string" where
  \<comment> \<open>the registration block of the CRUD generator's \<open>createAPIRoutes\<close>\<close>
  "routeCode modelName =
     ''\<newline>// '' @ modelName @ '' API Routes\<newline>Route::apiResource('' @
       quoted (toKebabCase modelName @ ''s'') @ '', App'' @ [CHR 0x5C] @ ''Http'' @ [CHR 0x5C] @
       ''Controllers'' @ [CHR 0x5C] @ ''Api'' @ [CHR 0x5C] @ modelName @
       ''Controller::class);\<newline>''"

definition createAPIRoutes ::
    "(string list \<Rightarrow> string) \<Rightarrow> string \<Rightarrow> string \<Rightarrow> world \<Rightarrow> world" where
  \<comment> \<open>\<open>createAPIRoutes(rootPath, modelName)\<close> of the CRUD generator\<close>
  "createAPIRoutes pathJoin rootPath modelName w =
     (let apiRoutesPath = pathJoin [rootPath, ''routes'', ''api.php'']
      in case files w apiRoutesPath of
           None \<Rightarrow> w\<lparr>messages := messages w @ [''routes/api.php not found'']\<rparr>
         | Some content \<Rightarrow>
             if \<not> includes_str content (modelName @ '' API Routes'')
             then w\<lparr>files := (files w)(apiRoutesPath \<mapsto> content @ routeCode modelName)\<rparr>
             else w)"

definition toUpperCase :: "string \<Rightarrow> string" where
  \<comment> \<open>\<open>toUpperCase\<close>, applied by the source to the API version (\<open>v1\<close> or \<open>v2\<close>) only\<close>
  "toUpperCase s = map toUpperChar s"

definition routeGroup :: "string option \<Rightarrow> string \<Rightarrow> string" where
  \<comment> \<open>the registration block of the API generator's \<open>createAPIRoutes\<close>\<close>
  "routeGroup version modelName =
     (let versionPrefix = (if truthyStr version then ''/'' @ strOf version else []);
          controllerNamespace =
            (if truthyStr version
             then ''App'' @ [CHR 0x5C] @ ''Http'' @ [CHR 0x5C] @ ''Controllers'' @ [CHR 0x5C] @
                  ''Api'' @ [CHR 0x5C] @ toUpperCase (strOf version) @ [CHR 0x5C] @ modelName @
                  ''Controller''
             else ''App'' @ [CHR 0x5C] @ ''Http'' @ [CHR 0x5C] @ ''Controllers'' @ [CHR 0x5C] @
                  ''Api'' @ [CHR 0x5C] @ modelName @ ''Controller'')
      in ''\<newline>// '' @ modelName @ '' API Routes\<newline>Route::prefix('' @ quoted versionPrefix @
         '')->group(function () {\<newline>    Route::apiResource('' @
         quoted (toKebabCase modelName @ ''s'') @ '', '' @ [CHR 0x5C] @ controllerNamespace @
         ''::class);\<newline>});\<newline>'')"

definition createAPIRoutes_api ::
    "(string list \<Rightarrow> string) \<Rightarrow> string \<Rightarrow> string \<Rightarrow> string option \<Rightarrow> world \<Rightarrow> world" where
  \<comment> \<open>\<open>createAPIRoutes(rootPath, modelName, version, authType)\<close> of the API generator;
      \<open>authType\<close> is not read\<close>
  "createAPIRoutes_api pathJoin rootPath modelName version w =
     (let apiRoutesPath = pathJoin [rootPath, ''routes'', ''api.php'']
      in case files w apiRoutesPath of
           None \<Rightarrow> w\<lparr>messages := messages w @ [''routes/api.php not found'']\<rparr>
         | Some content \<Rightarrow>
             if \<not> includes_str content (modelName @ '' API Routes'')
             then w\<lparr>files := (files w)(apiRoutesPath \<mapsto> content @ routeGroup version modelName)\<rparr>
             else w)"

definition generateVueCRUD ::
    "(string \<Rightarrow> field list \<Rightarrow> world \<Rightarrow> world) \<Rightarrow> world \<Rightarrow> error + world" where
  \<comment> \<open>\<open>generateVueCRUD\<close>: the two prompts, the parser, then \<open>pipeline\<close>, which stands for
      everything from \<open>withProgress\<close> on (the file-writing steps and the closing message);
      an exception of the parser leaves the command\<close>
  "generateVueCRUD pipeline w =
     (let (modelName, w1) = showInputBox w
      in if \<not> truthyStr modelName then Inr w1
         else
           let (fieldsAnswer, w2) = showInputBox w1
           in if \<not> truthyStr fieldsAnswer then Inr w2
              else (case parseFields (strOf fieldsAnswer) of
                      Inl e \<Rightarrow> Inl e
                    | Inr parsedFields \<Rightarrow> Inr (pipeline (strOf modelName) parsedFields w2)))"

definition generateAPI :: "(string \<Rightarrow> world \<Rightarrow> world) \<Rightarrow> world \<Rightarrow> world" where
  \<comment> \<open>\<open>generateAPI\<close>: the entity-name prompt, then \<open>rest\<close>, which stands for everything
      after \<open>if (!modelName) return;\<close>\<close>
  "generateAPI rest w =
     (let (modelName, w1) = showInputBox w
      in if \<not> truthyStr modelName then w1 else rest (strOf modelName) w1)"

section \<open>Well-formed field specifications\<close>







section \<open>Facts about the string primitives\<close>










lemma includes_str_iff: "includes_str s t \<longleftrightarrow> sublist t s"
  by (induction s) (auto simp: sublist_Cons_right)










section \<open>Name derivation\<close>

text \<open>
  C8. For the canonical name \<open>Product\<close> the name transformer gives PascalCase \<open>Product\<close>,
  camelCase \<open>product\<close>, kebab-case \<open>product\<close>, snake_case \<open>product\<close> and the table name
  \<open>products\<close>; the table name of every model name is its snake_case form followed by the
  single character \<open>s\<close>, so \<open>Category\<close> gives \<open>categorys\<close>.
\<close>

theorem name_derivation_Product:
  "toPascalCase ''Product'' = ''Product'' \<and>
   toCamelCase ''Product'' = ''product'' \<and>
   toKebabCase ''Product'' = ''product'' \<and>
   toSnakeCase ''Product'' = ''product'' \<and>
   tableName ''Product'' = ''products'' \<and>
   tableName ''Category'' = ''categorys'' \<and>
   (\<forall>modelName. tableName modelName = toSnakeCase modelName @ ''s'')"
proof -
  have pascal: "toPascalCase ''Product'' = ''Product''" by code_simp
  have camel: "toCamelCase ''Product'' = ''product''" by code_simp
  have kebab: "toKebabCase ''Product'' = ''product''" by code_simp
  have snake: "toSnakeCase ''Product'' = ''product''" by code_simp
  have category: "toSnakeCase ''Category'' = ''category''" by code_simp
  show ?thesis
    using pascal camel kebab snake category by (simp add: tableName_def)
qed

section \<open>FieldSpec parsers: round trip\<close>



section \<open>FieldSpec parsers: totality\<close>





section \<open>Validation Emitter\<close>

text \<open>
  C3. For every type, recognised or not, the update-mode rule string is \<open>sometimes|\<close>
  followed by the create-mode rule string of the same type, and every entry of the Update
  request's rule array is built from that string.
\<close>

theorem update_rule_derivation:
  "getValidationRules ty True = ''sometimes|'' @ getValidationRules ty False \<and>
   ruleLine f True =
     ''            '' @ quoted (strOf (name f)) @ '' => '' @
       quoted (''sometimes|'' @ getValidationRules (type f) False) @ '','' \<and>
   updateValidationRules fs =
     join ''\<newline>''
       (map (\<lambda>f. ''            '' @ quoted (strOf (name f)) @ '' => '' @
                  quoted (''sometimes|'' @ getValidationRules (type f) False) @ '','') fs)"
  by (simp add: getValidationRules_def ruleLine_def updateValidationRules_def)

section \<open>Scenario: a decimal field\<close>

text \<open>
  C1. The specification \<open>price:decimal:8,2\<close> is cut at its comma before the clauses are
  read, so each parser returns two descriptors: \<open>price\<close> of type \<open>decimal\<close> (precision 8 and,
  by default, scale 2 in the migration parser) and a second one named \<open>2\<close> of type
  \<open>string\<close>. The emitters give \<open>$table->decimal('price', 8, 2);\<close>, \<open>required|numeric\<close>,
  \<open>sometimes|required|numeric\<close> and \<open>number\<close> for the first.
\<close>

theorem decimal_spec_two_descriptors:
  "parseFieldsManual ''price:decimal:8,2'' =
     [(field_of (Some ''price'') ''decimal'')\<lparr>precision := Some (Num 8), scale := Some (Num 2)\<rparr>,
      field_of (Some ''2'') ''string''] \<and>
   parseFields ''price:decimal:8,2'' =
     Inr [field_of (Some ''price'') ''decimal'', field_of (Some ''2'') ''string''] \<and>
   map generateFieldDefinition (parseFieldsManual ''price:decimal:8,2'') =
     [''$table->decimal('price', 8, 2);'', ''$table->string('2');''] \<and>
   getValidationRules ''decimal'' False = ''required|numeric'' \<and>
   getValidationRules ''decimal'' True = ''sometimes|required|numeric'' \<and>
   getInputType ''decimal'' = Str ''number''"
proof -
  have a: "parseFieldsManual ''price:decimal:8,2'' =
     [(field_of (Some ''price'') ''decimal'')\<lparr>precision := Some (Num 8), scale := Some (Num 2)\<rparr>,
      field_of (Some ''2'') ''string'']" by code_simp
  have b: "parseFields ''price:decimal:8,2'' =
     Inr [field_of (Some ''price'') ''decimal'', field_of (Some ''2'') ''string'']" by code_simp
  have c: "map generateFieldDefinition (parseFieldsManual ''price:decimal:8,2'') =
     [''$table->decimal('price', 8, 2);'', ''$table->string('2');'']" by code_simp
  have d: "getValidationRules ''decimal'' False = ''required|numeric''" by code_simp
  have e: "getValidationRules ''decimal'' True = ''sometimes|required|numeric''" by code_simp
  have f: "getInputType ''decimal'' = Str ''number''" by code_simp
  from a b c d e f show ?thesis by blast
qed

section \<open>Scenario: an unknown type\<close>

text \<open>
  C4. The type \<open>not_a_type\<close> resolves to the \<open>string\<close> entry in all three lookups. The type
  \<open>constructor\<close> is no key of any table either, yet the lookups find the property that the
  tables inherit from \<open>Object.prototype\<close> and return that function instead of the
  \<open>string\<close> entry.
\<close>

theorem inherited_property_not_string_entry:
  "getMigrationType ''constructor'' = NativeFunction ''Object'' \<and>
   toString (getMigrationType ''constructor'') = ''function Object() { [native code] }'' \<and>
   getValidationRules ''constructor'' False = ''function Object() { [native code] }'' \<and>
   getInputType ''constructor'' = NativeFunction ''Object'' \<and>
   getMigrationType ''not_a_type'' = Str ''string'' \<and>
   getValidationRules ''not_a_type'' False = ''required|string|max:255'' \<and>
   getInputType ''not_a_type'' = Str ''text''"
proof -
  have a: "getMigrationType ''constructor'' = NativeFunction ''Object''" by code_simp
  have b: "toString (getMigrationType ''constructor'') = ''function Object() { [native code] }''"
    by code_simp
  have c: "getValidationRules ''constructor'' False = ''function Object() { [native code] }''"
    by code_simp
  have d: "getInputType ''constructor'' = NativeFunction ''Object''" by code_simp
  have e: "getMigrationType ''not_a_type'' = Str ''string''" by code_simp
  have f: "getValidationRules ''not_a_type'' False = ''required|string|max:255''" by code_simp
  have g: "getInputType ''not_a_type'' = Str ''text''" by code_simp
  from a b c d e f g show ?thesis by blast
qed

text \<open>
  The fallback does hold for every type that is neither a key of the table nor the name of
  a property of \<open>Object.prototype\<close>.
\<close>

lemma unknown_type_fallback:
  assumes "ty \<notin> set (map fst objectPrototype)"
  shows "ty \<notin> set (map fst migrationTypeMap) \<Longrightarrow> getMigrationType ty = Str ''string''"
    and "ty \<notin> set (map fst typeRules) \<Longrightarrow> getValidationRules ty False = ''required|string|max:255''"
    and "ty \<notin> set (map fst inputTypeMap) \<Longrightarrow> getInputType ty = Str ''text''"
proof -
  from assms have p: "map_of objectPrototype ty = None" by (simp add: map_of_eq_None_iff)
  show "ty \<notin> set (map fst migrationTypeMap) \<Longrightarrow> getMigrationType ty = Str ''string''"
    using p by (simp add: getMigrationType_def getProperty_def orElse_def map_of_eq_None_iff[THEN iffD2])
  show "ty \<notin> set (map fst typeRules) \<Longrightarrow> getValidationRules ty False = ''required|string|max:255''"
    using p by (simp add: getValidationRules_def getProperty_def orElse_def toString_def map_of_eq_None_iff[THEN iffD2])
  show "ty \<notin> set (map fst inputTypeMap) \<Longrightarrow> getInputType ty = Str ''text''"
    using p by (simp add: getInputType_def getProperty_def orElse_def map_of_eq_None_iff[THEN iffD2])
qed

section \<open>Scenario: an enum field\<close>

lemma split_enum_values:
  "map trim (split CHR '','' ''pending, active, completed'') = [''pending'', ''active'', ''completed'']"
  by code_simp

text \<open>
  C7 (as amended). For an enum field whose values \<open>pending\<close>, \<open>active\<close>, \<open>completed\<close> are
  given in that order to the interactive builder, the descriptor holds the three values in
  that order and the schema emitter lists them in that order in the \<open>enum\<close> column. No
  lookup table has an entry for \<open>enum\<close>: its create-mode rule is the fallback
  \<open>required|string|max:255\<close> and its input kind is the fallback \<open>text\<close>.
\<close>

theorem enum_field_emission:
  "values_opt (buildEnumField fieldName (Some ''pending, active, completed'')) =
     Some [''pending'', ''active'', ''completed''] \<and>
   generateFieldDefinition (buildEnumField fieldName (Some ''pending, active, completed'')) =
     ''$table->enum('' @ quoted fieldName @ '', ['pending', 'active', 'completed']);'' \<and>
   getValidationRules ''enum'' False = ''required|string|max:255'' \<and>
   getInputType ''enum'' = Str ''text''"
proof -
  have v: "buildEnumField fieldName (Some ''pending, active, completed'') =
      (field_of (Some fieldName) ''enum'')\<lparr>values_opt := Some [''pending'', ''active'', ''completed'']\<rparr>"
    using split_enum_values by (simp add: buildEnumField_def truthyStr_def strOf_def Let_def)
  have a: "getValidationRules ''enum'' False = ''required|string|max:255''" by code_simp
  have c: "getInputType ''enum'' = Str ''text''" by code_simp
  have g: "generateFieldDefinition (buildEnumField fieldName (Some ''pending, active, completed'')) =
     ''$table->enum('' @ quoted fieldName @ '', ['pending', 'active', 'completed']);''"
    unfolding v
    by (simp add: generateFieldDefinition_def columnCall_def appendIf_def field_of_def
        truthyNum_def truthyStr_def strOf_def quoted_def Let_def)
  from v a c g show ?thesis by (simp add: field_of_def)
qed

text \<open>
  C7 as stated fails: the create-mode rule of an \<open>enum\<close> field holds no
  \<open>in:pending,active,completed\<close>, and its input kind is not \<open>select\<close>.
\<close>

theorem enum_rule_and_input_counterexample:
  "\<not> includes_str (getValidationRules ''enum'' False) ''in:pending,active,completed'' \<and>
   getInputType ''enum'' \<noteq> Str ''select''"
proof -
  have a: "getValidationRules ''enum'' False = ''required|string|max:255''" by code_simp
  have b: "\<not> includes_str ''required|string|max:255'' ''in:pending,active,completed''" by code_simp
  have c: "getInputType ''enum'' = Str ''text''" by code_simp
  from a b c show ?thesis by simp
qed

section \<open>Schema Emitter: the modifier chain\<close>

lemma appendIf_append: "appendIf c t d = d @ (if c then t else [])"
  by (simp add: appendIf_def)

lemma concat_filter_Cons:
  "concat (map g (filter P (x # xs))) = (if P x then g x else []) @ concat (map g (filter P xs))"
  by simp

lemma modifierChain_unfold:
  "concat (modifierChain f) =
     (if selected f Unsigned then modifierText f Unsigned else []) @
     (if selected f Nullable then modifierText f Nullable else []) @
     (if selected f Unique then modifierText f Unique else []) @
     (if selected f Index then modifierText f Index else []) @
     (if selected f Default then modifierText f Default else []) @
     (if selected f Comment then modifierText f Comment else []) @
     (if selected f Constrained then modifierText f Constrained else []) @
     (if selected f CascadeOnDelete then modifierText f CascadeOnDelete else [])"
  unfolding modifierChain_def modifierOrder_def
  by (simp only: concat_filter_Cons filter.simps(1) list.map(1) concat.simps(1) append_Nil2)

text \<open>
  C5. The emitter is to append the selected modifiers of every descriptor in the fixed
  order. The manual specification \<open>x:special:nullable\<close> gives a descriptor of type \<open>special\<close>
  with \<open>nullable\<close> selected, whose modifier chain is \<open>->nullable()\<close>; the emitter returns
  \<open>$table->undefined();\<close> for it, with no modifier, while the same clause with any other
  type, such as \<open>x:weird:nullable\<close>, keeps the modifier.
\<close>

theorem special_tag_drops_selected_modifier:
  "type (parseFieldManual ''x:special:nullable'') = ''special'' \<and>
   selected (parseFieldManual ''x:special:nullable'') Nullable \<and>
   modifierChain (parseFieldManual ''x:special:nullable'') = [''->nullable()''] \<and>
   generateFieldDefinition (parseFieldManual ''x:special:nullable'') = ''$table->undefined();'' \<and>
   \<not> includes_str (generateFieldDefinition (parseFieldManual ''x:special:nullable''))
         ''->nullable()'' \<and>
   generateFieldDefinition (parseFieldManual ''x:weird:nullable'') =
     ''$table->weird('x')->nullable();''"
proof -
  have a: "type (parseFieldManual ''x:special:nullable'') = ''special''" by code_simp
  have b: "selected (parseFieldManual ''x:special:nullable'') Nullable" by code_simp
  have c: "modifierChain (parseFieldManual ''x:special:nullable'') = [''->nullable()'']"
    by code_simp
  have d: "generateFieldDefinition (parseFieldManual ''x:special:nullable'') =
      ''$table->undefined();''" by code_simp
  have e: "\<not> includes_str ''$table->undefined();'' ''->nullable()''" by code_simp
  have f: "generateFieldDefinition (parseFieldManual ''x:weird:nullable'') =
     ''$table->weird('x')->nullable();''" by code_simp
  from a b c d e f show ?thesis by simp
qed

text \<open>
  For a descriptor of any other type whose \<open>default\<close> and \<open>comment\<close> flags agree with the
  presence of their texts, the emitted text is the column constructor call, the selected
  modifiers in the fixed order, and a semicolon.
\<close>

lemma modifier_order_outside_special:
  assumes "type f \<noteq> ''special''"
    and "default f = (defaultValue f \<noteq> None)"
    and "comment f = truthyStr (commentText f)"
  shows "generateFieldDefinition f = columnCall f @ concat (modifierChain f) @ '';''"
  using assms
  by (simp add: generateFieldDefinition_def Let_def appendIf_append modifierChain_unfold
      split del: if_split cong: if_cong)

text \<open>
  The builder can leave the two apart: when \<open>default\<close> is picked and the default-value prompt
  is dismissed, the flag is set, no value is stored and no \<open>->default(...)\<close> is emitted.
\<close>

lemma default_picked_without_value:
  "default (applyModifiers [''default''] None None (field_of (Some ''x'') ''string'')) \<and>
   defaultValue (applyModifiers [''default''] None None (field_of (Some ''x'') ''string'')) = None \<and>
   generateFieldDefinition (applyModifiers [''default''] None None (field_of (Some ''x'') ''string'')) =
     ''$table->string('x');''"
proof -
  have a: "default (applyModifiers [''default''] None None (field_of (Some ''x'') ''string''))"
    by code_simp
  have b: "defaultValue (applyModifiers [''default''] None None (field_of (Some ''x'') ''string'')) = None"
    by code_simp
  have c: "generateFieldDefinition
             (applyModifiers [''default''] None None (field_of (Some ''x'') ''string'')) =
           ''$table->string('x');''"
    by code_simp
  from a b c show ?thesis by simp
qed

section \<open>Artifact Coordinator: route registration\<close>

lemma marker_in_routeCode: "includes_str (c @ routeCode m) (m @ '' API Routes'')"
proof -
  have "\<exists>ss. c @ routeCode m = (c @ ''\<newline>// '') @ (m @ '' API Routes'') @ ss"
    by (simp add: routeCode_def)
  then show ?thesis unfolding includes_str_iff sublist_def by blast
qed

lemma marker_in_routeGroup: "includes_str (c @ routeGroup v m) (m @ '' API Routes'')"
proof -
  have "\<exists>ss. c @ routeGroup v m = (c @ ''\<newline>// '') @ (m @ '' API Routes'') @ ss"
    by (simp add: routeGroup_def Let_def)
  then show ?thesis unfolding includes_str_iff sublist_def by blast
qed

lemma registration_skipped_when_marker_present:
  assumes "files w (pj [root, ''routes'', ''api.php'']) = Some c"
    and "includes_str c (m @ '' API Routes'')"
  shows "createAPIRoutes pj root m w = w" and "createAPIRoutes_api pj root m v w = w"
  using assms by (simp_all add: createAPIRoutes_def createAPIRoutes_api_def)

lemma registration_appends_when_marker_absent:
  assumes "files w (pj [root, ''routes'', ''api.php'']) = Some c"
    and "\<not> includes_str c (m @ '' API Routes'')"
  shows "files (createAPIRoutes pj root m w) =
           (files w)(pj [root, ''routes'', ''api.php''] \<mapsto> c @ routeCode m)"
    and "files (createAPIRoutes_api pj root m v w) =
           (files w)(pj [root, ''routes'', ''api.php''] \<mapsto> c @ routeGroup v m)"
  using assms by (simp_all add: createAPIRoutes_def createAPIRoutes_api_def)

lemma second_registration_writes_nothing:
  "files (createAPIRoutes pj root m (createAPIRoutes pj root m w)) =
     files (createAPIRoutes pj root m w)"
  "files (createAPIRoutes_api pj root m v (createAPIRoutes_api pj root m v w)) =
     files (createAPIRoutes_api pj root m v w)"
  by (auto simp: createAPIRoutes_def createAPIRoutes_api_def Let_def marker_in_routeCode
      marker_in_routeGroup split: option.splits)

text \<open>
  C6. Two registrations of one entity are to leave exactly one block of that entity in the
  routes file. The presence test looks for the text \<open><name> API Routes\<close> anywhere in the file,
  and the marker of \<open>SuperProduct\<close> holds the marker of \<open>Product\<close>: once \<open>SuperProduct\<close> is
  registered, registering \<open>Product\<close> twice, with either generator, changes nothing, and the
  file holds no \<open>Route::apiResource('products', ...)\<close> line, which the block of \<open>Product\<close> would
  bring.
\<close>

theorem marker_of_longer_name_blocks_registration:
  "files (createAPIRoutes (join ''/'') ''/app'' ''SuperProduct''
            \<lparr>files = [''/app/routes/api.php'' \<mapsto> ''<?php''], messages = [], commands = [],
              answers = []\<rparr>) ''/app/routes/api.php'' =
     Some (''<?php'' @ routeCode ''SuperProduct'') \<and>
   createAPIRoutes (join ''/'') ''/app'' ''Product''
     (createAPIRoutes (join ''/'') ''/app'' ''Product''
        (createAPIRoutes (join ''/'') ''/app'' ''SuperProduct''
           \<lparr>files = [''/app/routes/api.php'' \<mapsto> ''<?php''], messages = [], commands = [],
             answers = []\<rparr>)) =
     createAPIRoutes (join ''/'') ''/app'' ''SuperProduct''
        \<lparr>files = [''/app/routes/api.php'' \<mapsto> ''<?php''], messages = [], commands = [],
          answers = []\<rparr> \<and>
   createAPIRoutes_api (join ''/'') ''/app'' ''Product'' None
     (createAPIRoutes_api (join ''/'') ''/app'' ''Product'' None
        (createAPIRoutes (join ''/'') ''/app'' ''SuperProduct''
           \<lparr>files = [''/app/routes/api.php'' \<mapsto> ''<?php''], messages = [], commands = [],
             answers = []\<rparr>)) =
     createAPIRoutes (join ''/'') ''/app'' ''SuperProduct''
        \<lparr>files = [''/app/routes/api.php'' \<mapsto> ''<?php''], messages = [], commands = [],
          answers = []\<rparr> \<and>
   includes_str (routeCode ''Product'') ''Route::apiResource('products','' \<and>
   \<not> includes_str (''<?php'' @ routeCode ''SuperProduct'') ''Route::apiResource('products','' \<and>
   \<not> includes_str (''<?php'' @ routeCode ''SuperProduct'') (routeCode ''Product'')"
proof -
  let ?w = "\<lparr>files = [''/app/routes/api.php'' \<mapsto> ''<?php''], messages = [], commands = [],
             answers = []\<rparr>"
  let ?w1 = "createAPIRoutes (join ''/'') ''/app'' ''SuperProduct'' ?w"
  have p: "join ''/'' [''/app'', ''routes'', ''api.php''] = ''/app/routes/api.php''" by simp
  have n: "\<not> includes_str ''<?php'' (''SuperProduct'' @ '' API Routes'')" by code_simp
  have f0: "files ?w (join ''/'' [''/app'', ''routes'', ''api.php'']) = Some ''<?php''"
    by (simp add: p)
  from registration_appends_when_marker_absent(1)
         [where pj = "join ''/''" and root = "''/app''" and m = "''SuperProduct''", OF f0 n]
  have f1: "files ?w1 (join ''/'' [''/app'', ''routes'', ''api.php'']) =
      Some (''<?php'' @ routeCode ''SuperProduct'')"
    by simp
  have m: "includes_str (''<?php'' @ routeCode ''SuperProduct'') (''Product'' @ '' API Routes'')"
    by code_simp
  have s1: "createAPIRoutes (join ''/'') ''/app'' ''Product'' ?w1 = ?w1"
    by (rule registration_skipped_when_marker_present(1)
          [where pj = "join ''/''" and root = "''/app''" and m = "''Product''", OF f1 m])
  have s2: "createAPIRoutes_api (join ''/'') ''/app'' ''Product'' None ?w1 = ?w1"
    by (rule registration_skipped_when_marker_present(2)
          [where pj = "join ''/''" and root = "''/app''" and m = "''Product''", OF f1 m])
  have b: "includes_str (routeCode ''Product'') ''Route::apiResource('products',''" by code_simp
  have c: "\<not> includes_str (''<?php'' @ routeCode ''SuperProduct'') ''Route::apiResource('products',''"
    by code_simp
  have d: "\<not> includes_str (''<?php'' @ routeCode ''SuperProduct'') (routeCode ''Product'')"
    by code_simp
  from f1 have a: "files ?w1 ''/app/routes/api.php'' = Some (''<?php'' @ routeCode ''SuperProduct'')"
    by (simp add: p)
  from a s1 s2 b c d show ?thesis by simp
qed

section \<open>Artifact Coordinator: cancellation\<close>

text \<open>
  C9. When the entity-name prompt is dismissed, the Vue CRUD command and the API command
  return at once: the later steps are not run, so the files, the external commands issued
  and the messages are those from before the command; only the dismissed prompt has been
  consumed.
\<close>

theorem cancelled_entity_name_no_effects:
  assumes "answers w = None # later"
  shows "generateVueCRUD pipeline w = Inr (w\<lparr>answers := later\<rparr>) \<and>
         generateAPI rest w = w\<lparr>answers := later\<rparr> \<and>
         files (w\<lparr>answers := later\<rparr>) = files w \<and>
         commands (w\<lparr>answers := later\<rparr>) = commands w \<and>
         messages (w\<lparr>answers := later\<rparr>) = messages w"
  using assms
  by (simp add: generateVueCRUD_def generateAPI_def showInputBox_def truthyStr_def)

theorem cancelled_entity_name_no_effects_witness:
  "answers \<lparr>files = Map.empty, messages = [], commands = [],
            answers = [None, Some ''name:string'']\<rparr> = None # [Some ''name:string''] \<and>
   generateVueCRUD (\<lambda>m fs w. w\<lparr>files := (files w)(m \<mapsto> ''<?php''), commands := commands w @ [''make:model'']\<rparr>)
     \<lparr>files = Map.empty, messages = [], commands = [], answers = [None, Some ''name:string'']\<rparr> =
     Inr \<lparr>files = Map.empty, messages = [], commands = [], answers = [Some ''name:string'']\<rparr> \<and>
   generateAPI (\<lambda>m w. w\<lparr>files := (files w)(m \<mapsto> ''<?php''), commands := commands w @ [''make:model'']\<rparr>)
     \<lparr>files = Map.empty, messages = [], commands = [], answers = [None, Some ''name:string'']\<rparr> =
     \<lparr>files = Map.empty, messages = [], commands = [], answers = [Some ''name:string'']\<rparr>"
proof -
  let ?w = "\<lparr>files = Map.empty, messages = [], commands = [],
            answers = [None, Some ''name:string'']\<rparr>"
  have a: "answers ?w = None # [Some ''name:string'']" by simp
  from cancelled_entity_name_no_effects[OF a] a show ?thesis by simp
qed

text \<open>
  By contrast, when both prompts are answered the later steps do run, on the parsed fields.
\<close>

lemma answered_prompts_run_pipeline:
  assumes "answers w = Some ''Product'' # Some ''name:string'' # later"
  shows "generateVueCRUD pipeline w =
           Inr (pipeline ''Product'' [field_of (Some ''name'') ''string''] (w\<lparr>answers := later\<rparr>))"
proof -
  have "parseFields ''name:string'' = Inr [field_of (Some ''name'') ''string'']" by code_simp
  with assms show ?thesis
    by (simp add: generateVueCRUD_def showInputBox_def truthyStr_def strOf_def)
qed

end
